theory Spec2Isabelle
  imports Main
begin

section \<open>Python string primitives used by \<^verbatim>\<open>handler.py\<close>\<close>

text \<open>
  A Python \<^verbatim>\<open>str\<close> is a sequence of code points. The model takes the code points below
  256, one \<^typ>\<open>char\<close> each, so \<^typ>\<open>string\<close> stands for \<^verbatim>\<open>str\<close> and \<^const>\<open>length\<close>
  counts code points. The character classes below are Python's, cut to that range.
\<close>

definition isspace :: "char \<Rightarrow> bool" where
  \<comment> \<open>\<^verbatim>\<open>str.isspace\<close> on one character; also what \<^verbatim>\<open>\s\<close>, \<^verbatim>\<open>strip()\<close> and \<^verbatim>\<open>split()\<close> use\<close>
  "isspace c = ((of_char c :: nat) \<in> set [9, 10, 11, 12, 13, 28, 29, 30, 31, 32, 133, 160])"

definition isdecimal :: "char \<Rightarrow> bool" where
  \<comment> \<open>\<^verbatim>\<open>\d\<close>: the decimal digits, which below 256 are \<^verbatim>\<open>0\<close> to \<^verbatim>\<open>9\<close>\<close>
  "isdecimal c = (48 \<le> (of_char c :: nat) \<and> (of_char c :: nat) \<le> 57)"

definition islinebreak :: "char \<Rightarrow> bool" where
  \<comment> \<open>the line boundaries of \<^verbatim>\<open>str.splitlines\<close>\<close>
  "islinebreak c = ((of_char c :: nat) \<in> set [10, 11, 12, 13, 28, 29, 30, 133])"

definition strip :: "string \<Rightarrow> string" where
  "strip s = rev (dropWhile isspace (rev (dropWhile isspace s)))"

definition rstrip_chars :: "string \<Rightarrow> string \<Rightarrow> string" where
  \<comment> \<open>\<^verbatim>\<open>s.rstrip(chars)\<close>\<close>
  "rstrip_chars chars s = rev (dropWhile (\<lambda>c. c \<in> set chars) (rev s))"

definition startswith :: "string \<Rightarrow> string \<Rightarrow> bool" where
  "startswith s p = (take (length p) s = p)"

fun contains :: "string \<Rightarrow> string \<Rightarrow> bool" where
  \<comment> \<open>\<^verbatim>\<open>sub in s\<close>\<close>
  "contains sub [] = (sub = [])"
| "contains sub (c # cs) = (startswith (c # cs) sub \<or> contains sub cs)"

fun split_where :: "(char \<Rightarrow> bool) \<Rightarrow> string \<Rightarrow> string list" where
  \<comment> \<open>cut at every separator character, keeping empty pieces\<close>
  "split_where sep [] = [[]]"
| "split_where sep (c # cs) =
     (if sep c then [] # split_where sep cs
      else (case split_where sep cs of
              [] \<Rightarrow> [[c]]
            | w # ws \<Rightarrow> (c # w) # ws))"

definition split_on :: "char \<Rightarrow> string \<Rightarrow> string list" where
  \<comment> \<open>\<^verbatim>\<open>s.split(sep)\<close> for a one-character separator\<close>
  "split_on sep s = split_where (\<lambda>c. c = sep) s"

definition split_ws :: "string \<Rightarrow> string list" where
  \<comment> \<open>\<^verbatim>\<open>s.split()\<close>: runs of whitespace separate, no empty piece is returned\<close>
  "split_ws s = filter (\<lambda>w. w \<noteq> []) (split_where isspace s)"

fun splitlines_from :: "string \<Rightarrow> string \<Rightarrow> string list" where
  \<comment> \<open>the first argument is the current line, reversed\<close>
  "splitlines_from acc [] = (if acc = [] then [] else [rev acc])"
| "splitlines_from acc (c # cs) =
     (if islinebreak c then
        (case cs of
           d # ds \<Rightarrow>
             if c = CHR 0x0D \<and> d = CHR 0x0A then rev acc # splitlines_from [] ds
             else rev acc # splitlines_from [] (d # ds)
         | [] \<Rightarrow> [rev acc])
      else splitlines_from (c # acc) cs)"

definition splitlines :: "string \<Rightarrow> string list" where
  \<comment> \<open>\<^verbatim>\<open>s.splitlines()\<close>: \<^verbatim>\<open>\r\n\<close> is one boundary, and a final boundary opens no empty line\<close>
  "splitlines s = splitlines_from [] s"

fun join :: "string \<Rightarrow> string list \<Rightarrow> string" where
  \<comment> \<open>\<^verbatim>\<open>sep.join(xs)\<close>\<close>
  "join sep [] = []"
| "join sep [x] = x"
| "join sep (x # y # ys) = x @ sep @ join sep (y # ys)"

definition int_of_digits :: "string \<Rightarrow> int" where
  \<comment> \<open>\<^verbatim>\<open>int(s)\<close> for a string of decimal digits, the only strings \<^verbatim>\<open>(\d+)\<close> captures;
      the interpreter's optional cap on the number of digits is not modelled\<close>
  "int_of_digits s = foldl (\<lambda>a c. 10 * a + (int (of_char c) - 48)) 0 s"


section \<open>The regular expression of \<^verbatim>\<open>list_directory\<close>\<close>

text \<open>
  The pattern is a sequence of single-character classes, each taken once or under a greedy
  quantifier, with capturing groups around some of them and \<^verbatim>\<open>$\<close> at the end. The matcher
  is the backtracking one of \<^verbatim>\<open>re\<close>: a quantified class first takes the longest run it can
  and gives characters back one at a time while the rest of the pattern fails.
\<close>

datatype re_item =
    Cls "char \<Rightarrow> bool"                    \<comment> \<open>one character of a class\<close>
  | Rep "char \<Rightarrow> bool" nat "nat option"   \<comment> \<open>a class repeated, greedy: least and greatest count\<close>
  | GOpen nat                             \<comment> \<open>start of capturing group \<open>k\<close>\<close>
  | GClose nat                            \<comment> \<open>end of capturing group \<open>k\<close>\<close>
  | EndAnchor                             \<comment> \<open>\<^verbatim>\<open>$\<close>\<close>

datatype mark = MOpen nat | MClose nat

text \<open>
  A mark remembers the input that was still unread when a group was opened or closed; the
  text of the group is what was read between its two marks.
\<close>

type_synonym marks = "(mark \<times> string) list"

definition run_length :: "(char \<Rightarrow> bool) \<Rightarrow> nat option \<Rightarrow> string \<Rightarrow> nat" where
  "run_length c hi xs =
     (let n = length (takeWhile c xs)
      in case hi of None \<Rightarrow> n | Some h \<Rightarrow> min h n)"

primrec greedy :: "(nat \<Rightarrow> 'a option) \<Rightarrow> nat \<Rightarrow> nat \<Rightarrow> 'a option" where
  \<comment> \<open>try the counts \<open>n, n - 1, \<dots>, lo\<close> in this order; the first success wins\<close>
  "greedy f lo 0 = (if lo = 0 then f 0 else None)"
| "greedy f lo (Suc m) =
     (if Suc m < lo then None
      else (case f (Suc m) of
              Some r \<Rightarrow> Some r
            | None \<Rightarrow> greedy f lo m))"

definition at_end :: "string \<Rightarrow> bool" where
  \<comment> \<open>\<^verbatim>\<open>$\<close> without MULTILINE: the end of the string, or just before a final newline\<close>
  "at_end t = (t = [] \<or> t = [CHR 0x0A])"

primrec rmatch :: "re_item list \<Rightarrow> string \<Rightarrow> marks \<Rightarrow> marks option" where
  \<comment> \<open>the second argument is the unread input\<close>
  "rmatch [] t ms = Some ms"
| "rmatch (it # its) t ms =
     (case it of
        Cls c \<Rightarrow>
          (case t of
             [] \<Rightarrow> None
           | x # t' \<Rightarrow> if c x then rmatch its t' ms else None)
      | Rep c lo hi \<Rightarrow>
          greedy (\<lambda>n. rmatch its (drop n t) ms) lo (run_length c hi t)
      | GOpen k \<Rightarrow> rmatch its t ((MOpen k, t) # ms)
      | GClose k \<Rightarrow> rmatch its t ((MClose k, t) # ms)
      | EndAnchor \<Rightarrow> (if at_end t then rmatch its t ms else None))"

definition re_match :: "re_item list \<Rightarrow> string \<Rightarrow> marks option" where
  \<comment> \<open>\<^verbatim>\<open>pattern.match(s)\<close>: anchored at the start of the string\<close>
  "re_match p s = rmatch p s []"

definition match_group :: "marks \<Rightarrow> nat \<Rightarrow> string" where
  \<comment> \<open>\<^verbatim>\<open>match.group(k)\<close>, read from the latest marks of group \<open>k\<close>\<close>
  "match_group ms k =
     (case (map_of ms (MOpen k), map_of ms (MClose k)) of
        (Some t, Some t') \<Rightarrow> take (length t - length t') t
      | _ \<Rightarrow> [])"

definition perm_char :: "char \<Rightarrow> bool" where
  \<comment> \<open>\<^verbatim>\<open>[\-dlcbpsrwxStT]\<close>\<close>
  "perm_char c = (c \<in> set ''-dlcbpsrwxStT'')"

definition nonspace :: "char \<Rightarrow> bool" where
  \<comment> \<open>\<^verbatim>\<open>\S\<close>\<close>
  "nonspace c = (\<not> isspace c)"

definition any_char :: "char \<Rightarrow> bool" where
  \<comment> \<open>\<^verbatim>\<open>.\<close> without DOTALL: anything but a newline\<close>
  "any_char c = (c \<noteq> CHR 0x0A)"

definition lit :: "char \<Rightarrow> char \<Rightarrow> bool" where
  "lit a c = (c = a)"

definition listing_pattern :: "re_item list" where
  \<comment> \<open>\<^verbatim>\<open>^([\-dlcbpsrwxStT]+)\s+\d+\s+\S+\s+\S+\s+(\d+)\s+(\d{4}-\d{2}-\d{2})\s+(\d{2}:\d{2})\s+(.+)$\<close>\<close>
  "listing_pattern =
     [GOpen 1, Rep perm_char 1 None, GClose 1,
      Rep isspace 1 None, Rep isdecimal 1 None,
      Rep isspace 1 None, Rep nonspace 1 None,
      Rep isspace 1 None, Rep nonspace 1 None,
      Rep isspace 1 None, GOpen 2, Rep isdecimal 1 None, GClose 2,
      Rep isspace 1 None,
      GOpen 3, Rep isdecimal 4 (Some 4), Cls (lit CHR ''-''), Rep isdecimal 2 (Some 2),
               Cls (lit CHR ''-''), Rep isdecimal 2 (Some 2), GClose 3,
      Rep isspace 1 None,
      GOpen 4, Rep isdecimal 2 (Some 2), Cls (lit CHR '':''), Rep isdecimal 2 (Some 2), GClose 4,
      Rep isspace 1 None,
      GOpen 5, Rep any_char 1 None, GClose 5,
      EndAnchor]"


section \<open>The listing parser of \<^verbatim>\<open>list_directory\<close>\<close>

record FileItem =
  name :: string
  path :: string
  is_dir :: bool
  size_val :: int
  permissions :: string
  date_modified :: string

definition parse_line :: "string \<Rightarrow> string \<Rightarrow> FileItem option" where
  \<comment> \<open>the body of the loop over the lines: \<open>None\<close> is \<^verbatim>\<open>continue\<close>, \<open>Some\<close> the item appended\<close>
  "parse_line pth raw =
     (let line = strip raw in
      if line = [] \<or> startswith line ''total'' then None
      else (case re_match listing_pattern line of
              None \<Rightarrow> None
            | Some m \<Rightarrow>
                (let perms = match_group m 1;
                     sz = match_group m 2;
                     date = match_group m 3 @ '' '' @ match_group m 4;
                     nm = match_group m 5
                 in if nm \<in> set [''.'', ''..''] then None
                    else Some \<lparr> name = nm,
                                path = rstrip_chars ''/'' pth @ ''/'' @ nm,
                                is_dir = startswith perms ''d'',
                                size_val = int_of_digits sz,
                                permissions = perms,
                                date_modified = date \<rparr>)))"

fun parse_lines :: "string \<Rightarrow> string list \<Rightarrow> FileItem list \<Rightarrow> FileItem list" where
  \<comment> \<open>the loop, with \<^verbatim>\<open>items\<close> as the accumulator\<close>
  "parse_lines pth [] items = items"
| "parse_lines pth (l # ls) items =
     (case parse_line pth l of
        None \<Rightarrow> parse_lines pth ls items
      | Some it \<Rightarrow> parse_lines pth ls (items @ [it]))"

definition parse_listing :: "string \<Rightarrow> string \<Rightarrow> FileItem list" where
  \<comment> \<open>what \<^verbatim>\<open>list_directory\<close> returns for a zero exit status with this standard output\<close>
  "parse_listing pth out = parse_lines pth (split_on CHR 0x0A out) []"


section \<open>The process boundary and the session\<close>

text \<open>
  \<^verbatim>\<open>subprocess.run\<close> either returns a \<^verbatim>\<open>CompletedProcess\<close> or raises: \<^verbatim>\<open>TimeoutExpired\<close>
  after the 30 seconds, or any other exception (\<^verbatim>\<open>FileNotFoundError\<close> when the tool is
  missing, \<^verbatim>\<open>OSError\<close>, \<dots>). What it does is the environment's choice: a \<open>world\<close> maps the
  invocations made so far and the argument vector of this one to the outcome. Every message
  an exception carries is a string. The state \<open>sys\<close> outside the handler holds the argument
  vector of every invocation, the records of the \<^verbatim>\<open>ADBHandler\<close> logger and the lines written
  with \<^verbatim>\<open>print\<close>. The logger is configured at level WARNING (\<^verbatim>\<open>logging_config.py\<close>), so its
  \<^verbatim>\<open>debug\<close> calls leave no record and are left out.
\<close>

datatype exn =
    TimeoutExpired string
  | IndexError string
  | StopIteration string
  | OtherError string

fun exn_str :: "exn \<Rightarrow> string" where
  \<comment> \<open>\<^verbatim>\<open>str(e)\<close>\<close>
  "exn_str (TimeoutExpired m) = m"
| "exn_str (IndexError m) = m"
| "exn_str (StopIteration m) = m"
| "exn_str (OtherError m) = m"

record CompletedProcess =
  returncode :: int
  stdout :: string
  stderr :: string

datatype outcome = Completed CompletedProcess | Raised exn

type_synonym world = "string list list \<Rightarrow> string list \<Rightarrow> outcome"

datatype level = WARNING | ERROR

record sys =
  calls :: "string list list"
  log :: "(level \<times> string) list"
  printed :: "string list"

type_synonym dict = "(string \<times> string) list"

record handler =
  device_serial :: "string option"
  devices :: dict
  device_connected :: bool

definition logger_error :: "sys \<Rightarrow> string \<Rightarrow> sys" where
  "logger_error s msg = s\<lparr>log := log s @ [(ERROR, msg)]\<rparr>"

definition logger_warning :: "sys \<Rightarrow> string \<Rightarrow> sys" where
  "logger_warning s msg = s\<lparr>log := log s @ [(WARNING, msg)]\<rparr>"

definition print_line :: "sys \<Rightarrow> string \<Rightarrow> sys" where
  \<comment> \<open>\<^verbatim>\<open>print(msg)\<close>: standard output, not the logger\<close>
  "print_line s msg = s\<lparr>printed := printed s @ [msg]\<rparr>"

definition truthy :: "string option \<Rightarrow> bool" where
  \<comment> \<open>the truth value of an optional string: \<^verbatim>\<open>None\<close> and \<^verbatim>\<open>""\<close> are false\<close>
  "truthy x = (case x of None \<Rightarrow> False | Some v \<Rightarrow> v \<noteq> [])"

definition serial_args :: "handler \<Rightarrow> string list" where
  \<comment> \<open>\<^verbatim>\<open>if self.device_serial: cmd.extend(['-s', self.device_serial])\<close>\<close>
  "serial_args h =
     (case device_serial h of
        None \<Rightarrow> []
      | Some sn \<Rightarrow> if sn \<noteq> [] then [''-s'', sn] else [])"

definition run_adb_command ::
  "world \<Rightarrow> handler \<Rightarrow> string list \<Rightarrow> sys \<Rightarrow> (exn + CompletedProcess) \<times> sys" where
  "run_adb_command w h command s =
     (let cmd = [''adb''] @ serial_args h @ command;
          s1 = s\<lparr>calls := calls s @ [cmd]\<rparr>
      in case w (calls s) cmd of
           Completed r \<Rightarrow> (Inr r, s1)
         | Raised e \<Rightarrow>
             (case e of
                TimeoutExpired m \<Rightarrow>
                  (Inl e, logger_error s1 (''Command timed out: '' @ join '' '' cmd))
              | _ \<Rightarrow> (Inl e, s1)))"

definition replace_char :: "char \<Rightarrow> string \<Rightarrow> string \<Rightarrow> string" where
  \<comment> \<open>\<^verbatim>\<open>s.replace(a, r)\<close> for a one-character \<open>a\<close>\<close>
  "replace_char a r s = concat (map (\<lambda>c. if c = a then r else [c]) s)"

definition escape_path :: "string \<Rightarrow> string" where
  \<comment> \<open>double and single quotes get a backslash, the whole goes between double quotes\<close>
  "escape_path p =
     [CHR 0x22]
     @ replace_char (CHR 0x27) [CHR 0x5C, CHR 0x27]
         (replace_char (CHR 0x22) [CHR 0x5C, CHR 0x22] p)
     @ [CHR 0x22]"

definition try_except ::
  "(exn + 'a) \<times> sys \<Rightarrow> 'a \<Rightarrow> (sys \<Rightarrow> sys) \<Rightarrow> (exn \<Rightarrow> sys \<Rightarrow> sys) \<Rightarrow> (exn + 'a) \<times> sys" where
  \<comment> \<open>\<^verbatim>\<open>try: body  except subprocess.TimeoutExpired: h1; return dflt
      except Exception as e: h2; return dflt\<close>\<close>
  "try_except body dflt on_timeout on_exception =
     (case body of
        (Inr v, s) \<Rightarrow> (Inr v, s)
      | (Inl e, s) \<Rightarrow>
          (case e of
             TimeoutExpired m \<Rightarrow> (Inr dflt, on_timeout s)
           | _ \<Rightarrow> (Inr dflt, on_exception e s)))"

definition exit_ok :: "(exn + CompletedProcess) \<times> sys \<Rightarrow> (exn + bool) \<times> sys" where
  \<comment> \<open>\<^verbatim>\<open>result = self._run_adb_command(...); return result.returncode == 0\<close>\<close>
  "exit_ok res =
     (case res of
        (Inl e, s) \<Rightarrow> (Inl e, s)
      | (Inr r, s) \<Rightarrow> (Inr (returncode r = 0), s))"

definition not_connected :: "'a \<Rightarrow> sys \<Rightarrow> (exn + 'a) \<times> sys" where
  \<comment> \<open>the guard every operation starts with, when it fires\<close>
  "not_connected dflt s = (Inr dflt, logger_error s ''No ADB device connected'')"


section \<open>Device discovery\<close>

definition nth_py :: "'a list \<Rightarrow> nat \<Rightarrow> exn + 'a" where
  \<comment> \<open>\<^verbatim>\<open>xs[i]\<close> for \<open>i \<ge> 0\<close>\<close>
  "nth_py xs i = (if i < length xs then Inr (xs ! i) else Inl (IndexError ''list index out of range''))"

fun dict_set :: "dict \<Rightarrow> string \<Rightarrow> string \<Rightarrow> dict" where
  \<comment> \<open>\<^verbatim>\<open>d[k] = v\<close> on an insertion-ordered dictionary\<close>
  "dict_set [] k v = [(k, v)]"
| "dict_set ((k', v') # d) k v = (if k' = k then (k', v) # d else (k', v') # dict_set d k v)"

fun first_model :: "string list \<Rightarrow> exn + string" where
  \<comment> \<open>\<^verbatim>\<open>next((p.split(':')[1] for p in ps if p.startswith('model:')), 'Unknown')\<close>\<close>
  "first_model [] = Inr ''Unknown''"
| "first_model (p # ps) =
     (if startswith p ''model:'' then nth_py (split_on CHR '':'' p) 1 else first_model ps)"

fun devices_loop :: "string list \<Rightarrow> dict \<Rightarrow> exn + dict" where
  "devices_loop [] d = Inr d"
| "devices_loop (line # ls) d =
     (if contains ''device '' line \<and> \<not> contains ''devices'' line then
        (let parts = split_ws line in
         case nth_py parts 0 of
           Inl e \<Rightarrow> Inl e
         | Inr serial \<Rightarrow>
             (case first_model (drop 1 parts) of
                Inl e \<Rightarrow> Inl e
              | Inr model \<Rightarrow> devices_loop ls (dict_set d serial model)))
      else devices_loop ls d)"

definition get_connected_devices_body :: "world \<Rightarrow> handler \<Rightarrow> sys \<Rightarrow> (exn + dict) \<times> sys" where
  "get_connected_devices_body w h s =
     (case run_adb_command w h [''devices'', ''-l''] s of
        (Inl e, s1) \<Rightarrow> (Inl e, s1)
      | (Inr r, s1) \<Rightarrow>
          if returncode r \<noteq> 0 then
            (Inr [], logger_error s1 (''Error getting devices: '' @ stderr r))
          else (case devices_loop (splitlines (stdout r)) [] of
                  Inl e \<Rightarrow> (Inl e, s1)
                | Inr d \<Rightarrow> (Inr d, s1)))"

definition get_connected_devices :: "world \<Rightarrow> handler \<Rightarrow> sys \<Rightarrow> (exn + dict) \<times> sys" where
  \<comment> \<open>one handler, \<^verbatim>\<open>except Exception as e\<close>, which a timeout reaches too\<close>
  "get_connected_devices w h s =
     (case get_connected_devices_body w h s of
        (Inr d, s1) \<Rightarrow> (Inr d, s1)
      | (Inl e, s1) \<Rightarrow> (Inr [], logger_error s1 (''Error listing devices: '' @ exn_str e)))"

definition init :: "world \<Rightarrow> string option \<Rightarrow> sys \<Rightarrow> (exn + handler) \<times> sys" where
  \<comment> \<open>\<^verbatim>\<open>ADBHandler.__init__\<close>\<close>
  "init w serial s =
     (let h0 = \<lparr>device_serial = serial, devices = [], device_connected = False\<rparr> in
      case get_connected_devices w h0 s of
        (Inl e, s1) \<Rightarrow> (Inl e, s1)
      | (Inr d, s1) \<Rightarrow>
          (let h1 = h0\<lparr>devices := d, device_connected := (d \<noteq> [])\<rparr> in
           if \<not> device_connected h1 then (Inr h1, logger_warning s1 ''No ADB device connected'')
           else if \<not> truthy serial \<and> length d = 1 then
             (case d of
                [] \<Rightarrow> (Inl (StopIteration []), s1)
              | (k, v) # _ \<Rightarrow> (Inr (h1\<lparr>device_serial := Some k\<rparr>), s1))
           else (Inr h1, s1)))"


section \<open>The file operations\<close>

definition list_directory_body :: "world \<Rightarrow> handler \<Rightarrow> string \<Rightarrow> sys \<Rightarrow> (exn + FileItem list) \<times> sys" where
  "list_directory_body w h pth s =
     (case run_adb_command w h
             [''shell'', ''ls -la '' @ escape_path pth @ '' 2>/dev/null || echo ''
                         @ [CHR 0x22] @ ''error'' @ [CHR 0x22]] s of
        (Inl e, s1) \<Rightarrow> (Inl e, s1)
      | (Inr r, s1) \<Rightarrow>
          if returncode r \<noteq> 0 then (Inr [], logger_error s1 (''ADB Error: '' @ stderr r))
          else (Inr (parse_listing pth (stdout r)), s1))"

definition list_directory :: "world \<Rightarrow> handler \<Rightarrow> string \<Rightarrow> sys \<Rightarrow> (exn + FileItem list) \<times> sys" where
  "list_directory w h pth s =
     (if \<not> device_connected h then not_connected [] s
      else try_except (list_directory_body w h pth s) []
             (\<lambda>s'. logger_error s' (''Timeout listing directory: '' @ pth))
             (\<lambda>e s'. logger_error s' (''Error listing directory: '' @ exn_str e)))"

definition pull_file :: "world \<Rightarrow> handler \<Rightarrow> string \<Rightarrow> string \<Rightarrow> sys \<Rightarrow> (exn + bool) \<times> sys" where
  "pull_file w h remote_path local_path s =
     (if \<not> device_connected h then not_connected False s
      else try_except (exit_ok (run_adb_command w h [''pull'', remote_path, local_path] s)) False
             (\<lambda>s'. logger_error s' (''Timeout pulling file: '' @ remote_path))
             (\<lambda>e s'. logger_error s' (''Error pulling file/folder: '' @ exn_str e)))"

definition rename_item :: "world \<Rightarrow> handler \<Rightarrow> string \<Rightarrow> string \<Rightarrow> sys \<Rightarrow> (exn + bool) \<times> sys" where
  "rename_item w h old_path new_path s =
     (if \<not> device_connected h then not_connected False s
      else try_except
             (exit_ok (run_adb_command w h
                [''shell'', ''mv '' @ escape_path old_path @ '' '' @ escape_path new_path] s)) False
             (\<lambda>s'. logger_error s' (''Timeout renaming: '' @ old_path))
             (\<lambda>e s'. logger_error s' (''Error renaming: '' @ exn_str e)))"

definition delete_item :: "world \<Rightarrow> handler \<Rightarrow> string \<Rightarrow> bool \<Rightarrow> sys \<Rightarrow> (exn + bool) \<times> sys" where
  "delete_item w h pth isdir s =
     (if \<not> device_connected h then not_connected False s
      else try_except
             (exit_ok (run_adb_command w h
                [''shell'', (if isdir then ''rm -r '' @ escape_path pth
                             else ''rm '' @ escape_path pth)] s)) False
             (\<lambda>s'. logger_error s' (''Timeout deleting: '' @ pth))
             (\<lambda>e s'. logger_error s' (''Error deleting: '' @ exn_str e)))"

definition create_file :: "world \<Rightarrow> handler \<Rightarrow> string \<Rightarrow> sys \<Rightarrow> (exn + bool) \<times> sys" where
  "create_file w h remote_path s =
     (if \<not> device_connected h then not_connected False s
      else try_except
             (exit_ok (run_adb_command w h [''shell'', ''touch '' @ escape_path remote_path] s)) False
             (\<lambda>s'. logger_error s' (''Timeout creating file: '' @ remote_path))
             (\<lambda>e s'. logger_error s' (''Error creating file: '' @ exn_str e)))"

definition create_folder :: "world \<Rightarrow> handler \<Rightarrow> string \<Rightarrow> sys \<Rightarrow> (exn + bool) \<times> sys" where
  "create_folder w h remote_path s =
     (if \<not> device_connected h then not_connected False s
      else try_except
             (exit_ok (run_adb_command w h [''shell'', ''mkdir -p '' @ escape_path remote_path] s)) False
             (\<lambda>s'. logger_error s' (''Timeout creating folder: '' @ remote_path))
             (\<lambda>e s'. logger_error s' (''Error creating folder: '' @ exn_str e)))"

definition push_file :: "world \<Rightarrow> handler \<Rightarrow> string \<Rightarrow> string \<Rightarrow> sys \<Rightarrow> (exn + bool) \<times> sys" where
  "push_file w h local_path remote_path s =
     (if \<not> device_connected h then not_connected False s
      else try_except (exit_ok (run_adb_command w h [''push'', local_path, remote_path] s)) False
             (\<lambda>s'. logger_error s' (''Timeout pushing file: '' @ local_path))
             (\<lambda>e s'. logger_error s' (''Error pushing file: '' @ exn_str e)))"

definition parent_dir :: "string \<Rightarrow> string" where
  \<comment> \<open>\<^verbatim>\<open>'/'.join(dest_path.split('/')[:-1])\<close>\<close>
  "parent_dir dest_path = join ''/'' (butlast (split_on CHR ''/'' dest_path))"

definition ensure_parent :: "world \<Rightarrow> handler \<Rightarrow> string \<Rightarrow> sys \<Rightarrow> (exn + unit) \<times> sys" where
  \<comment> \<open>\<^verbatim>\<open>if parent_dir: self.create_folder(parent_dir)\<close>, the returned boolean dropped\<close>
  "ensure_parent w h dest_path s =
     (if parent_dir dest_path \<noteq> [] then
        (case create_folder w h (parent_dir dest_path) s of
           (Inl e, s1) \<Rightarrow> (Inl e, s1)
         | (Inr b, s1) \<Rightarrow> (Inr (), s1))
      else (Inr (), s))"

definition copy_on_device_body :: "world \<Rightarrow> handler \<Rightarrow> string \<Rightarrow> string \<Rightarrow> sys \<Rightarrow> (exn + bool) \<times> sys" where
  "copy_on_device_body w h src_path dest_path s =
     (case ensure_parent w h dest_path s of
        (Inl e, s1) \<Rightarrow> (Inl e, s1)
      | (Inr u, s1) \<Rightarrow>
          exit_ok (run_adb_command w h
            [''shell'', ''cp -r '' @ escape_path src_path @ '' '' @ escape_path dest_path] s1))"

definition copy_on_device :: "world \<Rightarrow> handler \<Rightarrow> string \<Rightarrow> string \<Rightarrow> sys \<Rightarrow> (exn + bool) \<times> sys" where
  "copy_on_device w h src_path dest_path s =
     (if \<not> device_connected h then not_connected False s
      else try_except (copy_on_device_body w h src_path dest_path s) False
             (\<lambda>s'. print_line s' (''Timeout copying: '' @ src_path @ '' to '' @ dest_path))
             (\<lambda>e s'. print_line s' (''Error copying: '' @ exn_str e)))"

definition move_on_device_body :: "world \<Rightarrow> handler \<Rightarrow> string \<Rightarrow> string \<Rightarrow> sys \<Rightarrow> (exn + bool) \<times> sys" where
  "move_on_device_body w h src_path dest_path s =
     (case ensure_parent w h dest_path s of
        (Inl e, s1) \<Rightarrow> (Inl e, s1)
      | (Inr u, s1) \<Rightarrow>
          exit_ok (run_adb_command w h
            [''shell'', ''mv '' @ escape_path src_path @ '' '' @ escape_path dest_path] s1))"

definition move_on_device :: "world \<Rightarrow> handler \<Rightarrow> string \<Rightarrow> string \<Rightarrow> sys \<Rightarrow> (exn + bool) \<times> sys" where
  "move_on_device w h src_path dest_path s =
     (if \<not> device_connected h then not_connected False s
      else try_except (move_on_device_body w h src_path dest_path s) False
             (\<lambda>s'. print_line s' (''Timeout moving: '' @ src_path @ '' to '' @ dest_path))
             (\<lambda>e s'. print_line s' (''Error moving: '' @ exn_str e)))"


section \<open>Test doubles\<close>

text \<open>
  Fixed environments, sessions and texts for the concrete scenarios: a tool that always exits
  with status 0 and a given standard output, one that always raises, the initial outer state,
  a session bound to one device, a session without a device and a session under construction,
  and the listing and device lines the scenarios read.
\<close>

definition reply :: "string \<Rightarrow> world" where
  "reply out = (\<lambda>past cmd. Completed \<lparr>returncode = 0, stdout = out, stderr = []\<rparr>)"

definition failing :: "exn \<Rightarrow> world" where
  "failing e = (\<lambda>past cmd. Raised e)"

definition sys0 :: sys where
  "sys0 = \<lparr>calls = [], log = [], printed = []\<rparr>"

definition bound_handler :: handler where
  "bound_handler = \<lparr>device_serial = Some ''ABC123'', devices = [(''ABC123'', ''Pixel_5'')],
                     device_connected = True\<rparr>"

definition offline_handler :: handler where
  "offline_handler = \<lparr>device_serial = None, devices = [], device_connected = False\<rparr>"

definition notes_line :: string where
  "notes_line = ''-rw-r--r-- 1 root root 1024 2024-01-15 10:30 notes.txt''"

definition notes_entry :: FileItem where
  "notes_entry = \<lparr>name = ''notes.txt'', path = ''/sdcard/notes.txt'', is_dir = False,
                   size_val = 1024, permissions = ''-rw-r--r--'',
                   date_modified = ''2024-01-15 10:30''\<rparr>"

definition symlink_line :: string where
  "symlink_line = ''lrwxrwxrwx 1 root root 21 2024-01-15 10:30 sdcard -> /storage/self/primary''"

definition symlink_entry :: FileItem where
  "symlink_entry = \<lparr>name = ''sdcard -> /storage/self/primary'',
                     path = ''/sdcard -> /storage/self/primary'', is_dir = False,
                     size_val = 21, permissions = ''lrwxrwxrwx'',
                     date_modified = ''2024-01-15 10:30''\<rparr>"

definition parent_calls :: "handler \<Rightarrow> string \<Rightarrow> string list list" where
  \<comment> \<open>the invocations that creating the parent of a destination makes: one or none\<close>
  "parent_calls h dest_path =
     (if parent_dir dest_path \<noteq> [] then
        [[''adb''] @ serial_args h @ [''shell'', ''mkdir -p '' @ escape_path (parent_dir dest_path)]]
      else [])"

definition exit_zero :: "outcome \<Rightarrow> bool" where
  \<comment> \<open>the process ran to its end and its exit status is 0\<close>
  "exit_zero oc = (case oc of Completed r \<Rightarrow> returncode r = 0 | Raised e \<Rightarrow> False)"

definition mkdir_fails :: world where
  \<comment> \<open>a tool that cannot be started for \<^verbatim>\<open>mkdir\<close> commands and exits with 0 for the others\<close>
  "mkdir_fails = (\<lambda>past cmd.
     if startswith (last cmd) ''mkdir'' then Raised (OtherError ''cannot start adb'')
     else Completed \<lparr>returncode = 0, stdout = [], stderr = []\<rparr>)"

definition one_device_out :: string where
  \<comment> \<open>the output of the discovery scenario, and one with a second device\<close>
  "one_device_out = ''List of devices attached'' @ [CHR 0x0A]
      @ ''ABC123  device product:x model:Pixel_5 device:x'' @ [CHR 0x0A]"

definition two_devices_out :: string where
  "two_devices_out = ''List of devices attached'' @ [CHR 0x0A]
      @ ''ABC123  device product:x model:Pixel_5 device:x'' @ [CHR 0x0A]
      @ ''XYZ789  device product:y model:Pixel_6 device:y'' @ [CHR 0x0A]"

definition unbound :: "string option \<Rightarrow> handler" where
  \<comment> \<open>the session while \<^verbatim>\<open>__init__\<close> runs discovery: only the serial is set\<close>
  "unbound serial = \<lparr>device_serial = serial, devices = [], device_connected = False\<rparr>"



section \<open>Device records, as the amended C4 words them\<close>

text \<open>
  A line qualifies when it contains the text \<^verbatim>\<open>device\<close> followed by a space and does not
  contain \<^verbatim>\<open>devices\<close>. Its record is its first whitespace-delimited token with the model
  value: of the first later token that starts with \<^verbatim>\<open>model:\<close>, the text between that colon
  and the next one, or \<^verbatim>\<open>Unknown\<close> without such a token.
\<close>

definition bare_device_out :: string where
  \<comment> \<open>a device line that ends with the token \<^verbatim>\<open>device\<close>\<close>
  "bare_device_out = ''List of devices attached'' @ [CHR 0x0A] @ ''ABC123 device'' @ [CHR 0x0A]"

definition qualifies :: "string \<Rightarrow> bool" where
  "qualifies line = (contains ''device '' line \<and> \<not> contains ''devices'' line)"

definition model_value :: "string list \<Rightarrow> string" where
  "model_value toks =
     (case filter (\<lambda>p. startswith p ''model:'') toks of
        [] \<Rightarrow> ''Unknown''
      | p # _ \<Rightarrow> takeWhile (\<lambda>c. c \<noteq> CHR '':'') (drop 6 p))"

definition device_record :: "string \<Rightarrow> string \<times> string" where
  \<comment> \<open>read only on qualifying lines, which have a first token\<close>
  "device_record line = (hd (split_ws line), model_value (tl (split_ws line)))"


section \<open>Well-formed listing lines, as C1 words them\<close>














section \<open>The loop over the lines\<close>

lemma parse_lines_acc: "parse_lines pth ls acc = acc @ parse_lines pth ls []"
proof (induction ls arbitrary: acc)
  case Nil
  show ?case by simp
next
  case (Cons l ls)
  show ?case
  proof (cases "parse_line pth l")
    case None
    then show ?thesis using Cons.IH[of acc] by simp
  next
    case (Some it)
    then show ?thesis using Cons.IH[of "acc @ [it]"] Cons.IH[of "[it]"] by simp
  qed
qed

lemma parse_lines_map_filter: "parse_lines pth ls [] = List.map_filter (parse_line pth) ls"
proof (induction ls)
  case Nil
  show ?case by simp
next
  case (Cons l ls)
  then show ?case
    using parse_lines_acc[of pth ls "[the (parse_line pth l)]"]
    by (cases "parse_line pth l") simp_all
qed

lemma in_parse_listing:
  "it \<in> set (parse_listing pth out) \<longleftrightarrow>
     (\<exists>l \<in> set (split_on CHR 0x0A out). parse_line pth l = Some it)"
  by (force simp: parse_listing_def parse_lines_map_filter List.map_filter_def)

lemma parse_line_path:
  "parse_line pth l = Some it \<Longrightarrow> path it = rstrip_chars ''/'' pth @ ''/'' @ name it"
  by (auto simp: parse_line_def Let_def split: if_splits option.splits)

lemma parse_line_name:
  "parse_line pth l = Some it \<Longrightarrow> name it \<noteq> ''.'' \<and> name it \<noteq> ''..''"
  by (auto simp: parse_line_def Let_def split: if_splits option.splits)

lemma rstrip_slash_append: "rstrip_chars ''/'' (p @ ''/'') = rstrip_chars ''/'' p"
  by (simp add: rstrip_chars_def)

lemma parse_line_base:
  "rstrip_chars ''/'' p = rstrip_chars ''/'' q \<Longrightarrow> parse_line p l = parse_line q l"
  by (simp add: parse_line_def Let_def split: option.splits)

lemma parse_listing_base:
  "rstrip_chars ''/'' p = rstrip_chars ''/'' q \<Longrightarrow> parse_listing p out = parse_listing q out"
  by (simp add: parse_listing_def parse_lines_map_filter List.map_filter_def parse_line_base[of p q])

lemma list_directory_items:
  assumes "fst (list_directory w h pth s) = Inr items"
  shows "items = [] \<or> (\<exists>out. items = parse_listing pth out)"
  using assms
  by (auto simp: list_directory_def not_connected_def try_except_def list_directory_body_def
      split: if_splits prod.splits sum.splits exn.splits)


section \<open>Paths of the entries\<close>

text \<open>
  C6. For every listing text and every base path, the path of each parsed entry is the base
  path without its trailing slashes, then a slash, then the name of the entry; this holds
  for whatever \<^verbatim>\<open>list_directory\<close> returns. Hence the base paths \<^verbatim>\<open>/a/b/\<close> and \<^verbatim>\<open>/a/b\<close> give the
  same entries for the same listing.
\<close>

theorem entry_path:
  "(\<forall>it \<in> set (parse_listing pth out). path it = rstrip_chars ''/'' pth @ ''/'' @ name it)
   \<and> (fst (list_directory w h pth s) = Inr items \<longrightarrow>
        (\<forall>it \<in> set items. path it = rstrip_chars ''/'' pth @ ''/'' @ name it))
   \<and> parse_listing ''/a/b/'' out = parse_listing ''/a/b'' out"
proof (intro conjI impI)
  show a: "\<forall>it \<in> set (parse_listing pth out). path it = rstrip_chars ''/'' pth @ ''/'' @ name it"
    for out
    using parse_line_path[of pth] by (auto simp: in_parse_listing)
  show "\<forall>it \<in> set items. path it = rstrip_chars ''/'' pth @ ''/'' @ name it"
    if "fst (list_directory w h pth s) = Inr items"
    using list_directory_items[OF that] a by auto
  show "parse_listing ''/a/b/'' out = parse_listing ''/a/b'' out"
    using rstrip_slash_append[of "''/a/b''"] by (intro parse_listing_base) simp
qed


theorem entry_path_witness:
  "fst (list_directory (reply notes_line) bound_handler ''/sdcard/'' sys0) = Inr [notes_entry]
   \<and> path notes_entry = rstrip_chars ''/'' ''/sdcard/'' @ ''/'' @ name notes_entry
   \<and> parse_listing ''/a/b/'' notes_line = parse_listing ''/a/b'' notes_line"
proof -
  have r: "fst (list_directory (reply notes_line) bound_handler ''/sdcard/'' sys0) = Inr [notes_entry]"
    by code_simp
  from entry_path[of "''/sdcard/''" notes_line "reply notes_line" bound_handler sys0 "[notes_entry]"] r
  show ?thesis by simp
qed


section \<open>The connection guard\<close>

text \<open>
  C3. When the session's connected flag is false, every file operation returns failure at
  once (\<open>False\<close>, or the empty sequence for \<^verbatim>\<open>list_directory\<close>), whatever its arguments, and
  the record of subprocess invocations is left as it was: no process is spawned.
\<close>

theorem not_connected_no_call:
  assumes "\<not> device_connected h"
  shows "(fst (list_directory w h p s) = Inr [] \<and> calls (snd (list_directory w h p s)) = calls s)
    \<and> (fst (pull_file w h p q s) = Inr False \<and> calls (snd (pull_file w h p q s)) = calls s)
    \<and> (fst (push_file w h p q s) = Inr False \<and> calls (snd (push_file w h p q s)) = calls s)
    \<and> (fst (rename_item w h p q s) = Inr False \<and> calls (snd (rename_item w h p q s)) = calls s)
    \<and> (fst (delete_item w h p b s) = Inr False \<and> calls (snd (delete_item w h p b s)) = calls s)
    \<and> (fst (create_file w h p s) = Inr False \<and> calls (snd (create_file w h p s)) = calls s)
    \<and> (fst (create_folder w h p s) = Inr False \<and> calls (snd (create_folder w h p s)) = calls s)
    \<and> (fst (copy_on_device w h p q s) = Inr False
        \<and> calls (snd (copy_on_device w h p q s)) = calls s)
    \<and> (fst (move_on_device w h p q s) = Inr False
        \<and> calls (snd (move_on_device w h p q s)) = calls s)"
  using assms
  by (simp add: list_directory_def pull_file_def push_file_def rename_item_def delete_item_def
      create_file_def create_folder_def copy_on_device_def move_on_device_def
      not_connected_def logger_error_def)

theorem not_connected_no_call_witness:
  "\<not> device_connected offline_handler
   \<and> fst (delete_item (reply []) offline_handler ''/sdcard/Music'' True sys0) = Inr False
   \<and> calls (snd (delete_item (reply []) offline_handler ''/sdcard/Music'' True sys0)) = []"
proof -
  have off: "\<not> device_connected offline_handler"
    by (simp add: offline_handler_def)
  from not_connected_no_call[OF off, of "reply []" "''/sdcard/Music''" sys0 _ True] off
  show ?thesis by (simp add: sys0_def)
qed


section \<open>Names of the entries\<close>

text \<open>
  C8, as stated, fails: a name may contain a slash. The line of a symbolic link matches the
  pattern, and the name captured is the whole remainder, target included.
\<close>

theorem entry_name_separator_counterexample:
  "fst (list_directory (reply symlink_line) bound_handler ''/'' sys0) = Inr [symlink_entry]
   \<and> CHR ''/'' \<in> set (name symlink_entry)"
proof -
  have "fst (list_directory (reply symlink_line) bound_handler ''/'' sys0) = Inr [symlink_entry]"
    by code_simp
  then show ?thesis by (simp add: symlink_entry_def)
qed

text \<open>
  C8, amended. For every listing text and base path, no entry that \<^verbatim>\<open>list_directory\<close>
  returns is named \<^verbatim>\<open>.\<close> or \<^verbatim>\<open>..\<close>.
\<close>

theorem entry_name_not_dot:
  assumes "fst (list_directory w h pth s) = Inr items" and "it \<in> set items"
  shows "name it \<noteq> ''.'' \<and> name it \<noteq> ''..''"
proof -
  from list_directory_items[OF assms(1)] assms(2)
  obtain out where "it \<in> set (parse_listing pth out)" by auto
  then obtain l where "parse_line pth l = Some it" by (auto simp: in_parse_listing)
  then show ?thesis by (rule parse_line_name)
qed

theorem entry_name_not_dot_witness:
  "fst (list_directory (reply notes_line) bound_handler ''/sdcard'' sys0) = Inr [notes_entry]
   \<and> notes_entry \<in> set [notes_entry]
   \<and> name notes_entry \<noteq> ''.'' \<and> name notes_entry \<noteq> ''..''"
proof -
  have r: "fst (list_directory (reply notes_line) bound_handler ''/sdcard'' sys0) = Inr [notes_entry]"
    by code_simp
  have m: "notes_entry \<in> set [notes_entry]" by simp
  from entry_name_not_dot[OF r m] r m show ?thesis by simp
qed


section \<open>Copy and move on the device\<close>

lemma run_adb_command_calls:
  "calls (snd (run_adb_command w h cmd s)) = calls s @ [[''adb''] @ serial_args h @ cmd]"
  by (simp add: run_adb_command_def Let_def logger_error_def split: outcome.splits exn.splits)

lemma create_folder_returns: "\<exists>b. fst (create_folder w h p s) = Inr b"
  by (auto simp: create_folder_def not_connected_def try_except_def exit_ok_def
      split: prod.splits sum.splits exn.splits)

lemma create_folder_calls:
  "device_connected h \<Longrightarrow>
   calls (snd (create_folder w h p s))
     = calls s @ [[''adb''] @ serial_args h @ [''shell'', ''mkdir -p '' @ escape_path p]]"
  using run_adb_command_calls[of w h "[''shell'', ''mkdir -p '' @ escape_path p]" s]
  by (auto simp: create_folder_def try_except_def exit_ok_def logger_error_def
      split: prod.splits sum.splits exn.splits)

lemma split_where_nonempty: "split_where P s \<noteq> []"
  by (induction s) (auto split: list.splits)

lemma split_where_none: "\<forall>c \<in> set b. \<not> P c \<Longrightarrow> split_where P b = [b]"
  by (induction b) auto

lemma split_where_append:
  "P c \<Longrightarrow> split_where P (a @ c # b) = split_where P a @ split_where P b"
proof (induction a)
  case Nil
  then show ?case by simp
next
  case (Cons x a)
  then show ?case
    using split_where_nonempty[of P a]
    by (cases "split_where P a") auto
qed

lemma join_split_where: "join [sep] (split_where (\<lambda>c. c = sep) a) = a"
proof (induction a)
  case Nil
  show ?case by simp
next
  case (Cons x a)
  obtain w ws where w: "split_where (\<lambda>c. c = sep) a = w # ws"
    using split_where_nonempty[of "\<lambda>c. c = sep" a] by (cases "split_where (\<lambda>c. c = sep) a") auto
  show ?case
    using Cons w by (cases ws) auto
qed

lemma parent_dir_cut:
  assumes "CHR ''/'' \<notin> set b"
  shows "parent_dir b = []" and "parent_dir (a @ ''/'' @ b) = a"
proof -
  have nb: "split_where (\<lambda>c. c = CHR ''/'') b = [b]"
    using assms by (intro split_where_none) auto
  show "parent_dir b = []"
    by (simp add: parent_dir_def split_on_def nb)
  have "split_where (\<lambda>c. c = CHR ''/'') (a @ CHR ''/'' # b)
        = split_where (\<lambda>c. c = CHR ''/'') a @ [b]"
    by (simp add: split_where_append nb)
  then show "parent_dir (a @ ''/'' @ b) = a"
    by (simp add: parent_dir_def split_on_def join_split_where)
qed

lemma run_result:
  "fst (try_except (exit_ok (run_adb_command w h cmd s)) False f g)
     = Inr (exit_zero (w (calls s) ([''adb''] @ serial_args h @ cmd)))"
  by (simp add: try_except_def exit_ok_def run_adb_command_def Let_def exit_zero_def
      split: outcome.splits exn.splits)

lemma try_except_calls:
  assumes "\<And>s'. calls (f s') = calls s'" and "\<And>e s'. calls (g e s') = calls s'"
  shows "calls (snd (try_except body d f g)) = calls (snd body)"
  using assms by (auto simp: try_except_def split: prod.splits sum.splits exn.splits)

lemma exit_ok_calls: "calls (snd (exit_ok r)) = calls (snd r)"
  by (auto simp: exit_ok_def split: prod.splits sum.splits)

lemma ensure_parent_ok:
  assumes "device_connected h"
  shows "\<exists>s1. ensure_parent w h dst s = (Inr (), s1) \<and> calls s1 = calls s @ parent_calls h dst"
proof (cases "parent_dir dst = []")
  case True
  then show ?thesis by (simp add: ensure_parent_def parent_calls_def)
next
  case False
  obtain b where b: "fst (create_folder w h (parent_dir dst) s) = Inr b"
    using create_folder_returns by blast
  obtain r s1 where rs: "create_folder w h (parent_dir dst) s = (r, s1)"
    by (cases "create_folder w h (parent_dir dst) s")
  have "calls s1 = calls s @ parent_calls h dst"
    using create_folder_calls[OF assms, where w = w and p = "parent_dir dst" and s = s] rs False
    by (simp add: parent_calls_def)
  then show ?thesis using False b rs by (simp add: ensure_parent_def)
qed

text \<open>
  C10. In a connected session, the boolean that \<^verbatim>\<open>copy_on_device\<close> and \<^verbatim>\<open>move_on_device\<close>
  return is the exit status of the final \<^verbatim>\<open>cp -r\<close> or \<^verbatim>\<open>mv\<close> command being 0 (false when that
  command raises). The outcome of the parent-directory creation does not enter it. The
  creation is attempted exactly when \<^verbatim>\<open>parent_dir\<close> is not empty: never for a destination
  without a slash, and with the text before the last slash otherwise.
\<close>

theorem copy_move_result:
  assumes "device_connected h"
  shows "fst (copy_on_device w h src dst s)
           = Inr (exit_zero (w (calls s @ parent_calls h dst)
                   ([''adb''] @ serial_args h
                    @ [''shell'', ''cp -r '' @ escape_path src @ '' '' @ escape_path dst])))
       \<and> calls (snd (copy_on_device w h src dst s))
           = calls s @ parent_calls h dst
             @ [[''adb''] @ serial_args h
                @ [''shell'', ''cp -r '' @ escape_path src @ '' '' @ escape_path dst]]
       \<and> fst (move_on_device w h src dst s)
           = Inr (exit_zero (w (calls s @ parent_calls h dst)
                   ([''adb''] @ serial_args h
                    @ [''shell'', ''mv '' @ escape_path src @ '' '' @ escape_path dst])))
       \<and> calls (snd (move_on_device w h src dst s))
           = calls s @ parent_calls h dst
             @ [[''adb''] @ serial_args h
                @ [''shell'', ''mv '' @ escape_path src @ '' '' @ escape_path dst]]
       \<and> (CHR ''/'' \<notin> set b \<longrightarrow> parent_calls h b = []
             \<and> (a \<noteq> [] \<longrightarrow> parent_calls h (a @ ''/'' @ b)
                   = [[''adb''] @ serial_args h @ [''shell'', ''mkdir -p '' @ escape_path a]]))"
proof -
  obtain s1 where s1: "ensure_parent w h dst s = (Inr (), s1)"
    and c1: "calls s1 = calls s @ parent_calls h dst"
    using ensure_parent_ok[OF assms] by blast
  have pc: "calls (print_line s' m) = calls s'" for s' m
    by (simp add: print_line_def)
  have cp: "copy_on_device w h src dst s
      = try_except (exit_ok (run_adb_command w h
            [''shell'', ''cp -r '' @ escape_path src @ '' '' @ escape_path dst] s1)) False
          (\<lambda>s'. print_line s' (''Timeout copying: '' @ src @ '' to '' @ dst))
          (\<lambda>e s'. print_line s' (''Error copying: '' @ exn_str e))"
    using assms s1 by (simp add: copy_on_device_def copy_on_device_body_def)
  have mv: "move_on_device w h src dst s
      = try_except (exit_ok (run_adb_command w h
            [''shell'', ''mv '' @ escape_path src @ '' '' @ escape_path dst] s1)) False
          (\<lambda>s'. print_line s' (''Timeout moving: '' @ src @ '' to '' @ dst))
          (\<lambda>e s'. print_line s' (''Error moving: '' @ exn_str e))"
    using assms s1 by (simp add: move_on_device_def move_on_device_body_def)
  have p: "CHR ''/'' \<notin> set b \<longrightarrow> parent_calls h b = []
             \<and> (a \<noteq> [] \<longrightarrow> parent_calls h (a @ ''/'' @ b)
                   = [[''adb''] @ serial_args h @ [''shell'', ''mkdir -p '' @ escape_path a]])"
    using parent_dir_cut(1)[of b] parent_dir_cut(2)[of b a] by (simp add: parent_calls_def)
  show ?thesis
    unfolding cp mv
    using p
    by (simp add: run_result try_except_calls exit_ok_calls run_adb_command_calls pc c1)
qed

theorem copy_move_result_witness:
  "device_connected bound_handler
   \<and> fst (copy_on_device mkdir_fails bound_handler ''/sdcard/a'' ''/sdcard/new/a'' sys0) = Inr True
   \<and> fst (move_on_device mkdir_fails bound_handler ''/sdcard/a'' ''b'' sys0) = Inr True
   \<and> parent_calls bound_handler ''b'' = []"
proof -
  have c: "device_connected bound_handler"
    by (simp add: bound_handler_def)
  have e1: "exit_zero (mkdir_fails (calls sys0 @ parent_calls bound_handler ''/sdcard/new/a'')
              ([''adb''] @ serial_args bound_handler
               @ [''shell'', ''cp -r '' @ escape_path ''/sdcard/a'' @ '' ''
                             @ escape_path ''/sdcard/new/a'']))"
    by code_simp
  have e2: "exit_zero (mkdir_fails (calls sys0 @ parent_calls bound_handler ''b'')
              ([''adb''] @ serial_args bound_handler
               @ [''shell'', ''mv '' @ escape_path ''/sdcard/a'' @ '' '' @ escape_path ''b'']))"
    by code_simp
  have n: "CHR ''/'' \<notin> set ''b''"
    by simp
  from copy_move_result[OF c, of mkdir_fails "''/sdcard/a''" "''/sdcard/new/a''" sys0 "''b''" "[]"]
       copy_move_result[OF c, of mkdir_fails "''/sdcard/a''" "''b''" sys0 "''b''" "[]"]
       e1 e2 c n
  show ?thesis by simp
qed


section \<open>Construction of a session\<close>

text \<open>
  C9. When a session is constructed without a device serial (\<^verbatim>\<open>None\<close> or the empty string)
  and discovery returns exactly one device, the session binds the serial of that device.
  When discovery returns more than one device, the serial stays as it was given, the
  selector arguments are empty, and every later command is issued as \<^verbatim>\<open>adb\<close> followed by the
  command, without \<^verbatim>\<open>-s\<close>.
\<close>

theorem init_binds_serial:
  assumes "\<not> truthy serial"
    and "get_connected_devices w (unbound serial) s = (Inr d, s1)"
  shows "(d = [(k, v)] \<longrightarrow>
            fst (init w serial s)
              = Inr \<lparr>device_serial = Some k, devices = d, device_connected = True\<rparr>)
       \<and> (1 < length d \<longrightarrow>
            fst (init w serial s)
              = Inr \<lparr>device_serial = serial, devices = d, device_connected = True\<rparr>
            \<and> serial_args \<lparr>device_serial = serial, devices = d, device_connected = True\<rparr> = []
            \<and> calls (snd (run_adb_command w'
                  \<lparr>device_serial = serial, devices = d, device_connected = True\<rparr> cmd s'))
                = calls s' @ [''adb'' # cmd])"
  using assms
  by (auto simp: init_def unbound_def Let_def serial_args_def truthy_def run_adb_command_calls
      split: option.splits list.splits)

theorem init_binds_serial_witness:
  "\<not> truthy None
   \<and> fst (init (reply one_device_out) None sys0)
       = Inr \<lparr>device_serial = Some ''ABC123'', devices = [(''ABC123'', ''Pixel_5'')],
              device_connected = True\<rparr>
   \<and> fst (init (reply two_devices_out) None sys0)
       = Inr \<lparr>device_serial = None,
              devices = [(''ABC123'', ''Pixel_5''), (''XYZ789'', ''Pixel_6'')],
              device_connected = True\<rparr>
   \<and> calls (snd (run_adb_command (reply [])
        \<lparr>device_serial = None,
         devices = [(''ABC123'', ''Pixel_5''), (''XYZ789'', ''Pixel_6'')],
         device_connected = True\<rparr> [''shell'', ''ls''] sys0))
       = [[''adb'', ''shell'', ''ls'']]"
proof -
  have t: "\<not> truthy None"
    by (simp add: truthy_def)
  have g1: "get_connected_devices (reply one_device_out) (unbound None) sys0
      = (Inr [(''ABC123'', ''Pixel_5'')],
         \<lparr>calls = [[''adb'', ''devices'', ''-l'']], log = [], printed = []\<rparr>)"
    by code_simp
  have g2: "get_connected_devices (reply two_devices_out) (unbound None) sys0
      = (Inr [(''ABC123'', ''Pixel_5''), (''XYZ789'', ''Pixel_6'')],
         \<lparr>calls = [[''adb'', ''devices'', ''-l'']], log = [], printed = []\<rparr>)"
    by code_simp
  from init_binds_serial[OF t g1, where k = "''ABC123''" and v = "''Pixel_5''"]
       init_binds_serial[OF t g2, where w' = "reply []" and cmd = "[''shell'', ''ls'']"
         and s' = sys0] t
  show ?thesis by (simp add: sys0_def)
qed


section \<open>Exceptions at the process boundary\<close>



lemma rename_error_logged:
  "fst (rename_item (failing (OtherError ''adb not found'')) bound_handler ''/sdcard/a'' ''b'' sys0)
     = Inr False
   \<and> log (snd (rename_item (failing (OtherError ''adb not found'')) bound_handler
                  ''/sdcard/a'' ''b'' sys0)) = [(ERROR, ''Error renaming: adb not found'')]"
  by code_simp

text \<open>
  C2 at the input where the code departs from it: the tool cannot be started (any exception
  other than a timeout) during \<^verbatim>\<open>copy_on_device\<close> or \<^verbatim>\<open>move_on_device\<close> with a destination
  that has no parent. Both return \<open>False\<close> and raise nothing, but the message goes to
  standard output with \<^verbatim>\<open>print\<close>: the logger receives no record, where every other
  operation calls \<^verbatim>\<open>self.logger.error\<close>.
\<close>

theorem copy_move_error_not_logged:
  "fst (copy_on_device (failing (OtherError ''adb not found'')) bound_handler ''/sdcard/a'' ''b'' sys0)
     = Inr False
   \<and> log (snd (copy_on_device (failing (OtherError ''adb not found'')) bound_handler
                  ''/sdcard/a'' ''b'' sys0)) = []
   \<and> printed (snd (copy_on_device (failing (OtherError ''adb not found'')) bound_handler
                  ''/sdcard/a'' ''b'' sys0)) = [''Error copying: adb not found'']
   \<and> fst (move_on_device (failing (OtherError ''adb not found'')) bound_handler ''/sdcard/a'' ''b'' sys0)
     = Inr False
   \<and> log (snd (move_on_device (failing (OtherError ''adb not found'')) bound_handler
                  ''/sdcard/a'' ''b'' sys0)) = []
   \<and> printed (snd (move_on_device (failing (OtherError ''adb not found'')) bound_handler
                  ''/sdcard/a'' ''b'' sys0)) = [''Error moving: adb not found'']"
  by code_simp


section \<open>The failure sentinel\<close>









section \<open>Discovery reads the qualifying lines\<close>

text \<open>
  C4, as stated, fails: a line may hold the token \<^verbatim>\<open>device\<close>, not be the header, and still
  be left out. The code looks for \<^verbatim>\<open>device\<close> followed by a space, so a line that ends with
  the token does not qualify.
\<close>

theorem device_token_counterexample:
  "fst (get_connected_devices (reply bare_device_out) (unbound None) sys0) = Inr []
   \<and> ''ABC123 device'' \<in> set (splitlines bare_device_out)
   \<and> ''device'' \<in> set (split_ws ''ABC123 device'')
   \<and> \<not> contains ''devices'' ''ABC123 device''"
  by code_simp

lemma contains_set: "contains sub s \<Longrightarrow> c \<in> set sub \<Longrightarrow> c \<in> set s"
proof (induction s)
  case Nil
  then show ?case by simp
next
  case (Cons x xs)
  show ?case
  proof (cases "startswith (x # xs) sub")
    case True
    then have "sub = take (length sub) (x # xs)" by (simp add: startswith_def)
    then have "set sub \<subseteq> set (x # xs)" by (metis set_take_subset)
    then show ?thesis using Cons.prems(2) by blast
  next
    case False
    then show ?thesis using Cons by auto
  qed
qed

lemma split_where_concat: "\<forall>c \<in> set (concat (split_where P s)). \<not> P c"
  by (induction s) (auto split: list.splits)

lemma split_where_covers: "c \<in> set s \<Longrightarrow> \<not> P c \<Longrightarrow> c \<in> set (concat (split_where P s))"
  by (induction s) (auto split: list.splits)

lemma split_ws_nonempty: "c \<in> set s \<Longrightarrow> \<not> isspace c \<Longrightarrow> split_ws s \<noteq> []"
proof -
  assume "c \<in> set s" "\<not> isspace c"
  then have "c \<in> set (concat (split_where isspace s))" by (rule split_where_covers)
  then obtain w where "w \<in> set (split_where isspace s)" "c \<in> set w" by auto
  then have "w \<in> set (split_ws s)" by (auto simp: split_ws_def)
  then show ?thesis by auto
qed

lemma qualifies_tokens: "qualifies line \<Longrightarrow> split_ws line \<noteq> []"
proof -
  assume "qualifies line"
  then have "contains ''device '' line" by (simp add: qualifies_def)
  then have "CHR ''d'' \<in> set line" by (rule contains_set) simp
  moreover have "\<not> isspace CHR ''d''" by (simp add: isspace_def)
  ultimately show ?thesis by (rule split_ws_nonempty)
qed

lemma hd_split_where: "hd (split_where P s) = takeWhile (\<lambda>c. \<not> P c) s"
proof (induction s)
  case Nil
  show ?case by simp
next
  case (Cons x xs)
  obtain w ws where "split_where P xs = w # ws"
    using split_where_nonempty[of P xs] by (cases "split_where P xs") auto
  then show ?case using Cons by simp
qed

lemma model_token:
  assumes "startswith p ''model:''"
  shows "nth_py (split_on CHR '':'' p) 1 = Inr (takeWhile (\<lambda>c. c \<noteq> CHR '':'') (drop 6 p))"
proof -
  from assms have "take (length ''model:'') p = ''model:''"
    by (simp only: startswith_def)
  then obtain rest where p: "p = ''model:'' @ rest"
    by (metis append_take_drop_id)
  have d: "drop 6 p = rest"
    by (simp add: p)
  have m: "split_where (\<lambda>c. c = CHR '':'') ''model'' = [''model'']"
    by (intro split_where_none) simp
  have "split_where (\<lambda>c. c = CHR '':'') (''model'' @ CHR '':'' # rest)
      = split_where (\<lambda>c. c = CHR '':'') ''model'' @ split_where (\<lambda>c. c = CHR '':'') rest"
    by (rule split_where_append) simp
  then have s: "split_on CHR '':'' p = ''model'' # split_where (\<lambda>c. c = CHR '':'') rest"
    by (simp add: split_on_def p m)
  obtain w ws where w: "split_where (\<lambda>c. c = CHR '':'') rest = w # ws"
    using split_where_nonempty[of "\<lambda>c. c = CHR '':''" rest]
    by (cases "split_where (\<lambda>c. c = CHR '':'') rest") auto
  have "w = takeWhile (\<lambda>c. c \<noteq> CHR '':'') rest"
    using hd_split_where[of "\<lambda>c. c = CHR '':''" rest] w by simp
  then show ?thesis
    unfolding d by (simp add: s w nth_py_def)
qed

lemma first_model_value: "first_model toks = Inr (model_value toks)"
proof (induction toks)
  case Nil
  show ?case by (simp add: model_value_def)
next
  case (Cons p ps)
  show ?case
  proof (cases "startswith p ''model:''")
    case True
    then show ?thesis using model_token[OF True] by (simp add: model_value_def)
  next
    case False
    then show ?thesis using Cons by (simp add: model_value_def)
  qed
qed

lemma map_of_dict_set: "map_of (dict_set d k v) = (map_of d)(k \<mapsto> v)"
  by (induction d) (auto simp: fun_eq_iff)

lemma devices_loop_skip: "\<not> qualifies l \<Longrightarrow> devices_loop (l # ls) d = devices_loop ls d"
  by (auto simp: qualifies_def)

lemma devices_loop_take:
  "qualifies l \<Longrightarrow> split_ws l = t # ts \<Longrightarrow>
   devices_loop (l # ls) d = devices_loop ls (dict_set d t (model_value ts))"
  by (simp add: qualifies_def nth_py_def first_model_value)

lemma devices_loop_map:
  "\<exists>d'. devices_loop ls d = Inr d'
        \<and> map_of d' = map_of (rev (map device_record (filter qualifies ls)) @ d)"
proof (induction ls arbitrary: d)
  case Nil
  show ?case by simp
next
  case (Cons l ls)
  show ?case
  proof (cases "qualifies l")
    case False
    then show ?thesis using Cons[of d] devices_loop_skip[OF False] by simp
  next
    case True
    then obtain t ts where t: "split_ws l = t # ts"
      using qualifies_tokens[OF True] by (cases "split_ws l") auto
    obtain d' where d': "devices_loop ls (dict_set d t (model_value ts)) = Inr d'"
      and m: "map_of d' = map_of (rev (map device_record (filter qualifies ls))
                                  @ dict_set d t (model_value ts))"
      using Cons[of "dict_set d t (model_value ts)"] by blast
    have r: "device_record l = (t, model_value ts)"
      by (simp add: device_record_def t)
    have "devices_loop (l # ls) d = Inr d'"
      using devices_loop_take[OF True t] d' by simp
    moreover have "map_of d' = map_of (rev (map device_record (filter qualifies (l # ls))) @ d)"
      using True m by (simp add: r map_of_dict_set)
    ultimately show ?thesis by blast
  qed
qed

text \<open>
  C4, amended. When the tool exits with status 0, \<^verbatim>\<open>get_connected_devices\<close> returns a mapping
  built from exactly the qualifying lines of the output, in order, a later line replacing an
  earlier one with the same serial: each maps its first token to its model value. On the
  output of the scenario it returns exactly \<^verbatim>\<open>{"ABC123": "Pixel_5"}\<close>.
\<close>

theorem devices_from_qualifying_lines:
  assumes "w (calls s) ([''adb''] @ serial_args h @ [''devices'', ''-l'']) = Completed r"
    and "returncode r = 0"
  shows "\<exists>d. fst (get_connected_devices w h s) = Inr d
             \<and> map_of d = map_of (rev (map device_record
                                        (filter qualifies (splitlines (stdout r)))))"
proof -
  obtain d where d: "devices_loop (splitlines (stdout r)) [] = Inr d"
    and m: "map_of d = map_of (rev (map device_record
                                     (filter qualifies (splitlines (stdout r)))) @ [])"
    using devices_loop_map[of "splitlines (stdout r)" "[]"] by blast
  have "fst (get_connected_devices w h s) = Inr d"
    using assms d
    by (simp add: get_connected_devices_def get_connected_devices_body_def
        run_adb_command_def Let_def)
  with m show ?thesis by simp
qed

theorem devices_from_qualifying_lines_witness:
  "fst (get_connected_devices (reply one_device_out) (unbound None) sys0)
     = Inr [(''ABC123'', ''Pixel_5'')]
   \<and> map_of [(''ABC123'', ''Pixel_5'')]
       = map_of (rev (map device_record (filter qualifies (splitlines one_device_out))))"
proof -
  have a: "reply one_device_out (calls sys0)
             ([''adb''] @ serial_args (unbound None) @ [''devices'', ''-l''])
           = Completed \<lparr>returncode = 0, stdout = one_device_out, stderr = []\<rparr>"
    by (simp add: reply_def)
  have b: "returncode \<lparr>returncode = 0, stdout = one_device_out, stderr = []\<rparr> = 0"
    by simp
  have g: "fst (get_connected_devices (reply one_device_out) (unbound None) sys0)
             = Inr [(''ABC123'', ''Pixel_5'')]"
    by code_simp
  from devices_from_qualifying_lines[where w = "reply one_device_out" and s = sys0
         and h = "unbound None"
         and r = "\<lparr>returncode = 0, stdout = one_device_out, stderr = []\<rparr>", OF a b] g
  show ?thesis by simp
qed


section \<open>Well-formed lines and the pattern\<close>






















section \<open>The entry of a well-formed line\<close>





section \<open>Sizes of directories\<close>




end
